theory Spec2Isabelle
  imports Main
begin

text \<open>
  The repository is a demonstration of OpenTelemetry auto-configuration on AKS: an Express
  frontend, kept in two variants, an Express backend over PostgreSQL, shell scripts and
  prose. This development embeds the request handlers of the two servers and the
  database initialisation of the backend. The OTLP relay that the specification designs
  (ingestion endpoint, decoder, destination registry, forwarder) has no code in the
  repository, so nothing is stated about it here.
\<close>

section \<open>JavaScript values and the built-ins the servers rely on\<close>

text \<open>
  The values the Express handlers pass to \<^verbatim>\<open>res.json\<close> and read from
  \<^verbatim>\<open>response.data\<close>. A \<open>JDate\<close> is a JavaScript \<^verbatim>\<open>Date\<close> (the driver's
  reading of a TIMESTAMP column), given in milliseconds.
\<close>

type_synonym timestamp = nat

datatype jsval =
    JNull
  | JBool bool
  | JNum int
  | JString string
  | JDate timestamp
  | JArray "jsval list"
  | JObject "(string \<times> jsval) list"

text \<open>
  The decimal text of a non-negative integer: what PostgreSQL writes for a \<^verbatim>\<open>bigint\<close>
  count and what a template literal writes for \<^verbatim>\<open>Date.now()\<close>.
\<close>

fun decimal :: "nat \<Rightarrow> string" where
  "decimal n =
     (if n < 10 then [char_of (48 + n)]
      else decimal (n div 10) @ [char_of (48 + n mod 10)])"

declare decimal.simps [simp del]

text \<open>
  \<^verbatim>\<open>parseInt(string)\<close> with no radix argument, after ECMAScript: leading white space is
  skipped, one sign is read, a \<^verbatim>\<open>0x\<close>/\<^verbatim>\<open>0X\<close> prefix selects radix 16, and the longest
  run of digits of the radix is the value; no digit at all gives \<^verbatim>\<open>NaN\<close>, here
  \<open>None\<close>. The result is kept exact: the handlers only compare it with \<open>0\<close> or
  print it, and rounding to a double never turns a non-zero integer into zero.
\<close>

definition is_space :: "char \<Rightarrow> bool" where
  "is_space c \<longleftrightarrow> c \<in> set [CHR '' '', CHR 0x09, CHR 0x0A, CHR 0x0B, CHR 0x0C, CHR 0x0D]"

definition digit_value :: "char \<Rightarrow> nat option" where
  "digit_value c =
     (let k = of_char c :: nat in
      if 48 \<le> k \<and> k \<le> 57 then Some (k - 48)
      else if 97 \<le> k \<and> k \<le> 122 then Some (k - 87)
      else if 65 \<le> k \<and> k \<le> 90 then Some (k - 55)
      else None)"

definition is_radix_digit :: "nat \<Rightarrow> char \<Rightarrow> bool" where
  "is_radix_digit R c = (case digit_value c of None \<Rightarrow> False | Some d \<Rightarrow> d < R)"

definition radix_value :: "nat \<Rightarrow> string \<Rightarrow> nat" where
  "radix_value R Z =
     foldl (\<lambda>a c. case digit_value c of None \<Rightarrow> a | Some d \<Rightarrow> R * a + d) 0 Z"

definition parseInt :: "string \<Rightarrow> int option" where
  "parseInt inputString =
     (let S = dropWhile is_space inputString;
          sign = (if take 1 S = ''-'' then - 1 else 1 :: int);
          S1 = (if take 1 S = ''+'' \<or> take 1 S = ''-'' then drop 1 S else S);
          hex = (take 2 S1 = ''0x'' \<or> take 2 S1 = ''0X'');
          R = (if hex then 16 else 10);
          S2 = (if hex then drop 2 S1 else S1);
          Z = takeWhile (is_radix_digit R) S2
      in if Z = [] then None else Some (sign * int (radix_value R Z)))"


section \<open>The PostgreSQL database behind the backend\<close>

text \<open>
  A row of the table that \<^verbatim>\<open>initDatabase\<close> creates:
  \<^verbatim>\<open>id SERIAL PRIMARY KEY, name VARCHAR(100) NOT NULL, email VARCHAR(100) UNIQUE NOT NULL,
  created_at TIMESTAMP DEFAULT CURRENT_TIMESTAMP\<close>.
\<close>

record users_row =
  id_col :: int
  name_col :: string
  email_col :: string
  created_at_col :: timestamp

text \<open>
  The server state the backend can observe: the \<^verbatim>\<open>users\<close> relation (\<open>None\<close> while it
  does not exist), the next value of the sequence behind the SERIAL column, and the
  server's reading of text as an \<^verbatim>\<open>integer\<close> (\<open>None\<close> where it rejects the text).
\<close>

record pg =
  users :: "users_row list option"
  users_id_seq :: int
  int4in :: "string \<Rightarrow> int option"

text \<open>
  What a single \<^verbatim>\<open>pool.query\<close> call meets and the program does not control: whether
  the server can be reached (\<open>Some message\<close>: the call rejects with that message) and the
  server's clock.
\<close>

record conn =
  fault :: "string option"
  clock :: timestamp

text \<open>The SQL statements of \<^verbatim>\<open>initDatabase\<close> and of \<^verbatim>\<open>GET /users/:id\<close>.\<close>

datatype statement =
    CreateUsersTable
  | CountUsers
  | InsertUsers "(string \<times> string) list"
  | SelectUserById string

text \<open>
  What a resolved query carries: no row (a command), rows of \<^verbatim>\<open>users\<close>, or the single
  row of \<^verbatim>\<open>COUNT(*)\<close>, whose \<^verbatim>\<open>count\<close> the driver hands over as a decimal string.
\<close>

datatype result =
    Command
  | UserRows "users_row list"
  | CountRow string

definition row_json :: "users_row \<Rightarrow> jsval" where
  "row_json r =
     JObject [(''id'', JNum (id_col r)), (''name'', JString (name_col r)),
              (''email'', JString (email_col r)), (''created_at'', JDate (created_at_col r))]"

fun rows :: "result \<Rightarrow> jsval list" where
  "rows Command = []"
| "rows (UserRows rs) = map row_json rs"
| "rows (CountRow c) = [JObject [(''count'', JString c)]]"

definition undefined_table :: string where
  \<open>undefined_table = ''relation "users" does not exist''\<close>

definition users_pkey_violation :: string where
  \<open>users_pkey_violation = ''duplicate key value violates unique constraint "users_pkey"''\<close>

definition users_email_key_violation :: string where
  \<open>users_email_key_violation =
     ''duplicate key value violates unique constraint "users_email_key"''\<close>

definition invalid_integer :: "string \<Rightarrow> string" where
  \<open>invalid_integer p = ''invalid input syntax for type integer: "'' @ p @ ''"''\<close>

text \<open>
  The rows of one INSERT, in order: each takes the next sequence value and the
  statement's timestamp, and is checked against the primary key and the unique email.
  The sequence keeps the values it has handed out also when the statement fails.
\<close>

fun insert_rows ::
  "timestamp \<Rightarrow> int \<Rightarrow> (string \<times> string) list \<Rightarrow> users_row list \<Rightarrow> (string + users_row list) \<times> int"
where
  "insert_rows t k [] tbl = (Inr tbl, k)"
| "insert_rows t k ((n, e) # vs) tbl =
     (if k \<in> id_col ` set tbl then (Inl users_pkey_violation, k + 1)
      else if e \<in> email_col ` set tbl then (Inl users_email_key_violation, k + 1)
      else insert_rows t (k + 1) vs
             (tbl @ [\<lparr>id_col = k, name_col = n, email_col = e, created_at_col = t\<rparr>]))"

fun execute :: "timestamp \<Rightarrow> statement \<Rightarrow> pg \<Rightarrow> (string + result) \<times> pg" where
  "execute t CreateUsersTable db =
     (Inr Command,
      case users db of
        None \<Rightarrow> db\<lparr>users := Some [], users_id_seq := 1\<rparr>
      | Some tbl \<Rightarrow> db)"
| "execute t CountUsers db =
     (case users db of
        None \<Rightarrow> (Inl undefined_table, db)
      | Some tbl \<Rightarrow> (Inr (CountRow (decimal (length tbl))), db))"
| "execute t (InsertUsers vs) db =
     (case users db of
        None \<Rightarrow> (Inl undefined_table, db)
      | Some tbl \<Rightarrow>
          (case insert_rows t (users_id_seq db) vs tbl of
             (Inl message, k) \<Rightarrow> (Inl message, db\<lparr>users_id_seq := k\<rparr>)
           | (Inr tbl', k) \<Rightarrow> (Inr Command, db\<lparr>users := Some tbl', users_id_seq := k\<rparr>)))"
| "execute t (SelectUserById p) db =
     (case users db of
        None \<Rightarrow> (Inl undefined_table, db)
      | Some tbl \<Rightarrow>
          (case int4in db p of
             None \<Rightarrow> (Inl (invalid_integer p), db)
           | Some k \<Rightarrow> (Inr (UserRows (filter (\<lambda>r. id_col r = k) tbl)), db)))"

text \<open>
  \<^verbatim>\<open>pool.query\<close>: rejects with the fault's message, leaving the server as it was, or
  runs the statement.
\<close>

definition pool_query :: "conn \<Rightarrow> statement \<Rightarrow> pg \<Rightarrow> (string + result) \<times> pg" where
  "pool_query c q db =
     (case fault c of
        Some message \<Rightarrow> (Inl message, db)
      | None \<Rightarrow> execute (clock c) q db)"


section \<open>backend/server.js\<close>

text \<open>
  What a handler sends: the status (200 unless \<^verbatim>\<open>res.status\<close> sets another) and the
  body, a value given to \<^verbatim>\<open>res.json\<close> or the text given to \<^verbatim>\<open>res.send\<close>.
\<close>

datatype content = Json jsval | Html string

record response =
  status :: nat
  body :: content

definition error_response :: "string \<Rightarrow> response" where
  "error_response message = \<lparr>status = 500, body = Json (JObject [(''error'', JString message)])\<rparr>"

definition sample_users :: "(string \<times> string) list" where
  "sample_users =
     [(''Alice Johnson'', ''alice@example.com''),
      (''Bob Smith'', ''bob@example.com''),
      (''Charlie Brown'', ''charlie@example.com'')]"

text \<open>
  \<^verbatim>\<open>initDatabase\<close>. The three queries run in order inside one \<^verbatim>\<open>try\<close>; the first
  rejection jumps to the \<^verbatim>\<open>catch\<close>, which only logs. The result is \<open>Inl message\<close>
  when the \<^verbatim>\<open>catch\<close> ran, and otherwise \<open>Inr seeded\<close>, where \<open>seeded\<close> tells whether
  the sample rows were inserted. Reading \<^verbatim>\<open>rows[0].count\<close> of a result without rows is a
  TypeError, caught like a rejection.
\<close>

definition no_count_row :: string where
  "no_count_row = ''Cannot read properties of undefined (reading 'count')''"

definition initDatabase :: "conn \<Rightarrow> conn \<Rightarrow> conn \<Rightarrow> pg \<Rightarrow> (string + bool) \<times> pg" where
  "initDatabase c1 c2 c3 db =
     (case pool_query c1 CreateUsersTable db of
        (Inl message, db1) \<Rightarrow> (Inl message, db1)
      | (Inr created, db1) \<Rightarrow>
          (case pool_query c2 CountUsers db1 of
             (Inl message, db2) \<Rightarrow> (Inl message, db2)
           | (Inr countResult, db2) \<Rightarrow>
               (case countResult of
                  CountRow count \<Rightarrow>
                    if parseInt count = Some 0 then
                      (case pool_query c3 (InsertUsers sample_users) db2 of
                         (Inl message, db3) \<Rightarrow> (Inl message, db3)
                       | (Inr inserted, db3) \<Rightarrow> (Inr True, db3))
                    else (Inr False, db2)
                | _ \<Rightarrow> (Inl no_count_row, db2))))"

text \<open>
  The handler of \<^verbatim>\<open>GET /users/:id\<close>, from the route parameter: one query, then 404
  for an empty result, the first row otherwise (status 200, the default), and 500 with
  the message when the query rejects.
\<close>

definition getUser :: "conn \<Rightarrow> string \<Rightarrow> pg \<Rightarrow> response \<times> pg" where
  "getUser c userId db =
     (case pool_query c (SelectUserById userId) db of
        (Inl message, db') \<Rightarrow> (error_response message, db')
      | (Inr result, db') \<Rightarrow>
          (case rows result of
             [] \<Rightarrow>
               (\<lparr>status = 404, body = Json (JObject [(''error'', JString ''User not found'')])\<rparr>, db')
           | row # _ \<Rightarrow> (\<lparr>status = 200, body = Json row\<rparr>, db')))"


section \<open>frontend/server.js, in its two variants\<close>

text \<open>
  The source holds the frontend twice: a variant that leaves the exporters to the SDK's
  auto-configuration and a variant that builds the OTLP exporters itself. The telemetry
  set-up has no part in what a handler sends, so the model starts at
  \<^verbatim>\<open>const app = express()\<close>.

  What a handler meets and the program does not control: the backend's base URL, the
  outcome of each \<^verbatim>\<open>axios\<close> call, which resolves with a status and the parsed body
  or rejects with an error message (also for a status outside 2xx), and the readings of
  \<^verbatim>\<open>Date.now()\<close>, numbered in the order the handler takes them.
\<close>

datatype axios_result = Resolved nat jsval | Rejected string

record env =
  BACKEND_URL :: string
  axios_get :: "string \<Rightarrow> axios_result"
  axios_post :: "string \<Rightarrow> jsval \<Rightarrow> axios_result"
  Date_now :: "nat \<Rightarrow> nat"

text \<open>
  Reading \<^verbatim>\<open>response.data.length\<close> throws a TypeError when the backend's body was the
  JSON \<^verbatim>\<open>null\<close>; of every other parsed body the property can be read.
\<close>

definition length_TypeError :: "jsval \<Rightarrow> string option" where
  "length_TypeError data =
     (case data of
        JNull \<Rightarrow> Some ''Cannot read properties of null (reading 'length')''
      | _ \<Rightarrow> None)"

text \<open>
  Express routing of a GET request, the only kind the frontend registers routes for
  (\<^verbatim>\<open>app.get\<close>). The request is the list of the segments of its path, decoded
  (\<^verbatim>\<open>/\<close> is the empty list); a route pattern is a list of literal segments and named
  parameters; a literal matches without regard to letter case and a parameter matches
  any non-empty segment, as in Express with its default settings; the router runs the
  first registered route that matches.
\<close>

type_synonym request = "string list"

datatype segment = Lit string | Param string

definition lower :: "char \<Rightarrow> char" where
  "lower c = (let k = of_char c :: nat in if 65 \<le> k \<and> k \<le> 90 then char_of (k + 32) else c)"

fun match_path :: "segment list \<Rightarrow> request \<Rightarrow> (string \<times> string) list option" where
  "match_path [] [] = Some []"
| "match_path (Lit l # ps) (s # ss) =
     (if map lower l = map lower s then match_path ps ss else None)"
| "match_path (Param p # ps) (s # ss) =
     (if s = [] then None else map_option ((#) (p, s)) (match_path ps ss))"
| "match_path _ _ = None"

datatype endpoint = Health | Homepage | GetUsers | GetUser | CreateUser | GetStats

fun dispatch ::
  "(segment list \<times> endpoint) list \<Rightarrow> request \<Rightarrow> (endpoint \<times> (string \<times> string) list) option"
where
  "dispatch [] req = None"
| "dispatch ((pat, h) # rs) req =
     (case match_path pat req of
        Some params \<Rightarrow> Some (h, params)
      | None \<Rightarrow> dispatch rs req)"

text \<open>\<^verbatim>\<open>req.params.id\<close>; a parameter the route does not bind reads \<^verbatim>\<open>undefined\<close>.\<close>

definition param :: "(string \<times> string) list \<Rightarrow> string \<Rightarrow> string" where
  "param params k = (case map_of params k of None \<Rightarrow> ''undefined'' | Some v \<Rightarrow> v)"

text \<open>
  The home page is a template literal without substitutions. Both variants hold the
  same lines apart from two: the mark that opens the heading and the arrow between the
  tiers, kept here as the bytes of the source file.
\<close>

definition unlines :: "string list \<Rightarrow> string" where
  "unlines ls = concat (map (\<lambda>l. l @ [CHR 0x0A]) ls)"

definition page_top :: "string list" where
  \<open>page_top =
     [''      <!DOCTYPE html>'',
      ''      <html>'',
      ''        <head>'',
      ''          <title>3-Tier OTel Demo</title>'',
      ''          <style>'',
      ''            body { font-family: Arial, sans-serif; margin: 40px; }'',
      ''            .container { max-width: 800px; margin: 0 auto; }'',
      ''            button {'',
      ''              padding: 15px 30px;'',
      ''              font-size: 16px;'',
      ''              margin: 10px;'',
      ''              cursor: pointer;'',
      ''              background-color: #0078D4;'',
      ''              color: white;'',
      ''              border: none;'',
      ''              border-radius: 4px;'',
      ''            }'',
      ''            button:hover { background-color: #106EBE; }'',
      ''            .result {'',
      ''              margin-top: 20px;'',
      ''              padding: 20px;'',
      ''              background-color: #f0f0f0;'',
      ''              border-radius: 4px;'',
      ''            }'',
      ''            h1 { color: #333; }'',
      ''          </style>'',
      ''        </head>'',
      ''        <body>'',
      ''          <div class="container">'']\<close>

definition page_bottom :: "string list" where
  \<open>page_bottom =
     [[],
      ''            <h2>Test Operations:</h2>'',
      ''            <button onclick="getUsers()">Get All Users</button>'',
      ''            <button onclick="getUser()">Get User #1</button>'',
      ''            <button onclick="createUser()">Create User</button>'',
      ''            <button onclick="getStats()">Get Stats</button>'',
      [],
      ''            <div id="result" class="result" style="display:none;">'',
      ''              <h3>Result:</h3>'',
      ''              <pre id="output"></pre>'',
      ''            </div>'',
      ''          </div>'',
      [],
      ''          <script>'',
      ''            async function callApi(endpoint) {'',
      ''              const resultDiv = document.getElementById('result');'',
      ''              const outputPre = document.getElementById('output');'',
      [],
      ''              try {'',
      ''                const response = await fetch(endpoint);'',
      ''                const data = await response.json();'',
      ''                outputPre.textContent = JSON.stringify(data, null, 2);'',
      ''                resultDiv.style.display = 'block';'',
      ''              } catch (error) {'',
      ''                outputPre.textContent = 'Error: ' + error.message;'',
      ''                resultDiv.style.display = 'block';'',
      ''              }'',
      ''            }'',
      [],
      ''            function getUsers() { callApi('/api/users'); }'',
      ''            function getUser() { callApi('/api/users/1'); }'',
      ''            function createUser() { callApi('/api/users/create'); }'',
      ''            function getStats() { callApi('/api/stats'); }'',
      ''          </script>'',
      ''        </body>'',
      ''      </html>'']\<close>

definition homepage :: "string \<Rightarrow> string \<Rightarrow> string" where
  "homepage mark arrow =
     [CHR 0x0A] @ unlines page_top
     @ unlines
         [''            <h1>'' @ mark @ '' 3-Tier OpenTelemetry Demo</h1>'',
          ''            <p>This demo shows distributed tracing across Frontend '' @ arrow
            @ '' Backend '' @ arrow @ '' Database</p>'']
     @ unlines page_bottom @ ''    ''"

subsection \<open>The auto-configured variant\<close>

definition homepage_autoconfigured :: string where
  "homepage_autoconfigured =
     homepage [CHR 0xF0, CHR 0x9F, CHR 0x9A, CHR 0x80] [CHR 0xE2, CHR 0x86, CHR 0x92]"

definition routes_autoconfigured :: "(segment list \<times> endpoint) list" where
  "routes_autoconfigured =
     [([Lit ''health''], Health),
      ([], Homepage),
      ([Lit ''api'', Lit ''users''], GetUsers),
      ([Lit ''api'', Lit ''users'', Param ''id''], GetUser),
      ([Lit ''api'', Lit ''users'', Lit ''create''], CreateUser),
      ([Lit ''api'', Lit ''stats''], GetStats)]"

fun handle_autoconfigured :: "env \<Rightarrow> endpoint \<Rightarrow> (string \<times> string) list \<Rightarrow> response" where
  "handle_autoconfigured e Health params =
     \<lparr>status = 200,
      body = Json (JObject [(''status'', JString ''healthy''), (''service'', JString ''frontend'')])\<rparr>"
| "handle_autoconfigured e Homepage params = \<lparr>status = 200, body = Html homepage_autoconfigured\<rparr>"
| "handle_autoconfigured e GetUsers params =
     (case axios_get e (BACKEND_URL e @ ''/users'') of
        Rejected message \<Rightarrow> error_response message
      | Resolved code data \<Rightarrow>
          (case length_TypeError data of
             Some message \<Rightarrow> error_response message
           | None \<Rightarrow> \<lparr>status = 200, body = Json data\<rparr>))"
| "handle_autoconfigured e GetUser params =
     (case axios_get e (BACKEND_URL e @ ''/users/'' @ param params ''id'') of
        Rejected message \<Rightarrow> error_response message
      | Resolved code data \<Rightarrow> \<lparr>status = 200, body = Json data\<rparr>)"
| "handle_autoconfigured e CreateUser params =
     (case axios_post e (BACKEND_URL e @ ''/users/create'')
             (JObject [(''name'', JString (''User'' @ decimal (Date_now e 0))),
                       (''email'', JString (''user'' @ decimal (Date_now e 1) @ ''@example.com''))]) of
        Rejected message \<Rightarrow> error_response message
      | Resolved code data \<Rightarrow> \<lparr>status = 200, body = Json data\<rparr>)"
| "handle_autoconfigured e GetStats params =
     (case axios_get e (BACKEND_URL e @ ''/stats'') of
        Rejected message \<Rightarrow> error_response message
      | Resolved code data \<Rightarrow> \<lparr>status = 200, body = Json data\<rparr>)"

text \<open>
  The application on a GET request: \<open>None\<close> when no route of the source matches and
  Express answers on its own.
\<close>

definition app_autoconfigured :: "env \<Rightarrow> request \<Rightarrow> response option" where
  "app_autoconfigured e req =
     map_option (\<lambda>(h, params). handle_autoconfigured e h params) (dispatch routes_autoconfigured req)"

subsection \<open>The explicit-exporter variant\<close>

definition homepage_explicit :: string where
  "homepage_explicit =
     homepage
       [CHR 0xC3, CHR 0xB0, CHR 0xC5, CHR 0xB8, CHR 0xC5, CHR 0xA1, CHR 0xE2, CHR 0x82, CHR 0xAC]
       [CHR 0xC3, CHR 0xA2, CHR 0xE2, CHR 0x80, CHR 0xA0, CHR 0xE2, CHR 0x80, CHR 0x99]"

definition routes_explicit :: "(segment list \<times> endpoint) list" where
  "routes_explicit =
     [([Lit ''health''], Health),
      ([], Homepage),
      ([Lit ''api'', Lit ''users''], GetUsers),
      ([Lit ''api'', Lit ''users'', Param ''id''], GetUser),
      ([Lit ''api'', Lit ''users'', Lit ''create''], CreateUser),
      ([Lit ''api'', Lit ''stats''], GetStats)]"

fun handle_explicit :: "env \<Rightarrow> endpoint \<Rightarrow> (string \<times> string) list \<Rightarrow> response" where
  "handle_explicit e Health params =
     \<lparr>status = 200,
      body = Json (JObject [(''status'', JString ''healthy''), (''service'', JString ''frontend'')])\<rparr>"
| "handle_explicit e Homepage params = \<lparr>status = 200, body = Html homepage_explicit\<rparr>"
| "handle_explicit e GetUsers params =
     (case axios_get e (BACKEND_URL e @ ''/users'') of
        Rejected message \<Rightarrow> error_response message
      | Resolved code data \<Rightarrow>
          (case length_TypeError data of
             Some message \<Rightarrow> error_response message
           | None \<Rightarrow> \<lparr>status = 200, body = Json data\<rparr>))"
| "handle_explicit e GetUser params =
     (case axios_get e (BACKEND_URL e @ ''/users/'' @ param params ''id'') of
        Rejected message \<Rightarrow> error_response message
      | Resolved code data \<Rightarrow> \<lparr>status = 200, body = Json data\<rparr>)"
| "handle_explicit e CreateUser params =
     (case axios_post e (BACKEND_URL e @ ''/users/create'')
             (JObject [(''name'', JString (''User'' @ decimal (Date_now e 0))),
                       (''email'', JString (''user'' @ decimal (Date_now e 1) @ ''@example.com''))]) of
        Rejected message \<Rightarrow> error_response message
      | Resolved code data \<Rightarrow> \<lparr>status = 200, body = Json data\<rparr>)"
| "handle_explicit e GetStats params =
     (case axios_get e (BACKEND_URL e @ ''/stats'') of
        Rejected message \<Rightarrow> error_response message
      | Resolved code data \<Rightarrow> \<lparr>status = 200, body = Json data\<rparr>)"

definition app_explicit :: "env \<Rightarrow> request \<Rightarrow> response option" where
  "app_explicit e req =
     map_option (\<lambda>(h, params). handle_explicit e h params) (dispatch routes_explicit req)"


section \<open>Concrete servers and requests\<close>

text \<open>
  A server without the table, one that answers, one that cannot be reached, and the
  server as the first run of \<^verbatim>\<open>initDatabase\<close> leaves it when the clock reads 1000.
\<close>

definition fresh_server :: pg where
  "fresh_server = \<lparr>users = None, users_id_seq = 1, int4in = parseInt\<rparr>"

definition reachable :: conn where
  "reachable = \<lparr>fault = None, clock = 1000\<rparr>"

definition unreachable :: conn where
  "unreachable = \<lparr>fault = Some ''connect ECONNREFUSED 10.0.0.7:5432'', clock = 1000\<rparr>"

definition alice :: users_row where
  "alice = \<lparr>id_col = 1, name_col = ''Alice Johnson'', email_col = ''alice@example.com'',
            created_at_col = 1000\<rparr>"

definition bob :: users_row where
  "bob = \<lparr>id_col = 2, name_col = ''Bob Smith'', email_col = ''bob@example.com'',
          created_at_col = 1000\<rparr>"

definition charlie :: users_row where
  "charlie = \<lparr>id_col = 3, name_col = ''Charlie Brown'', email_col = ''charlie@example.com'',
              created_at_col = 1000\<rparr>"

definition seeded_server :: pg where
  "seeded_server = \<lparr>users = Some [alice, bob, charlie], users_id_seq = 4, int4in = parseInt\<rparr>"

definition home_request :: request where
  "home_request = []"


section \<open>Decimal text read back by parseInt\<close>

lemma decimal_digits:
  "c \<in> set (decimal n) \<Longrightarrow> 48 \<le> (of_char c :: nat) \<and> (of_char c :: nat) \<le> 57"
proof (induction n arbitrary: c rule: decimal.induct)
  case (1 n)
  show ?case
  proof (cases "n < 10")
    case True
    with "1.prems" show ?thesis by (simp add: decimal.simps [of n])
  next
    case False
    from "1.prems" False have "c \<in> set (decimal (n div 10)) \<or> c = char_of (48 + n mod 10)"
      by (auto simp add: decimal.simps [of n])
    then show ?thesis
    proof
      assume "c \<in> set (decimal (n div 10))"
      with "1.IH" False show ?thesis by blast
    next
      assume c: "c = char_of (48 + n mod 10)"
      have "n mod 10 < 10" by simp
      then have "(48 + n mod 10) mod 256 = 48 + n mod 10" by simp
      with c show ?thesis by simp
    qed
  qed
qed

lemma decimal_not_Nil: "decimal n \<noteq> []"
  by (simp add: decimal.simps [of n])

lemma radix_value_snoc:
  "radix_value R (Z @ [c]) =
     (case digit_value c of None \<Rightarrow> radix_value R Z | Some d \<Rightarrow> R * radix_value R Z + d)"
  by (simp add: radix_value_def split: option.split)

lemma digit_value_char_of: "d < 10 \<Longrightarrow> digit_value (char_of (48 + d)) = Some d"
  by (simp add: digit_value_def)

lemma radix_value_decimal: "radix_value 10 (decimal n) = n"
proof (induction n rule: decimal.induct)
  case (1 n)
  show ?case
  proof (cases "n < 10")
    case True
    then show ?thesis
      by (simp add: decimal.simps [of n] radix_value_def digit_value_char_of)
  next
    case False
    with "1.IH" have "radix_value 10 (decimal (n div 10)) = n div 10" by simp
    with False show ?thesis
      by (simp add: decimal.simps [of n] radix_value_snoc digit_value_char_of)
  qed
qed

lemma is_radix_digit_decimal: "c \<in> set (decimal n) \<Longrightarrow> is_radix_digit 10 c"
  using decimal_digits [of c n] by (auto simp add: is_radix_digit_def digit_value_def)

lemma not_space_decimal: "c \<in> set (decimal n) \<Longrightarrow> \<not> is_space c"
  using decimal_digits [of c n] by (auto simp add: is_space_def)

lemma take_decimal_neq:
  assumes "c \<in> set s" and "\<not> (48 \<le> (of_char c :: nat) \<and> (of_char c :: nat) \<le> 57)"
  shows "take k (decimal n) \<noteq> s"
proof
  assume "take k (decimal n) = s"
  with assms(1) have "c \<in> set (take k (decimal n))" by simp
  then have "c \<in> set (decimal n)" by (rule in_set_takeD)
  with assms(2) decimal_digits show False by blast
qed

lemma parseInt_decimal: "parseInt (decimal n) = Some (int n)"
proof -
  have S: "dropWhile is_space (decimal n) = decimal n"
    using decimal_not_Nil [of n] not_space_decimal [of _ n]
    by (cases "decimal n") auto
  have Z: "takeWhile (is_radix_digit 10) (decimal n) = decimal n"
    using is_radix_digit_decimal [of _ n] by simp
  have m: "take 1 (decimal n) \<noteq> ''-''" by (rule take_decimal_neq [of "CHR ''-''"]) simp_all
  have p: "take 1 (decimal n) \<noteq> ''+''" by (rule take_decimal_neq [of "CHR ''+''"]) simp_all
  have x: "take 2 (decimal n) \<noteq> ''0x''" by (rule take_decimal_neq [of "CHR ''x''"]) simp_all
  have X: "take 2 (decimal n) \<noteq> ''0X''" by (rule take_decimal_neq [of "CHR ''X''"]) simp_all
  show ?thesis
    unfolding parseInt_def Let_def S
    using m p x X by (simp add: Z decimal_not_Nil radix_value_decimal)
qed

lemma parseInt_count_zero: "parseInt (decimal n) = Some 0 \<longleftrightarrow> n = 0"
  by (simp add: parseInt_decimal)


section \<open>initDatabase\<close>

lemma insert_sample_users_empty:
  "insert_rows t k sample_users [] =
     (Inr [\<lparr>id_col = k, name_col = ''Alice Johnson'', email_col = ''alice@example.com'',
            created_at_col = t\<rparr>,
           \<lparr>id_col = k + 1, name_col = ''Bob Smith'', email_col = ''bob@example.com'',
            created_at_col = t\<rparr>,
           \<lparr>id_col = k + 2, name_col = ''Charlie Brown'', email_col = ''charlie@example.com'',
            created_at_col = t\<rparr>],
      k + 3)"
  by (simp add: sample_users_def)

lemma pool_query_create:
  "pool_query c CreateUsersTable db = (r, db1) \<Longrightarrow>
     (case fault c of
        Some m \<Rightarrow> r = Inl m \<and> db1 = db
      | None \<Rightarrow> r = Inr Command \<and>
          (case users db of None \<Rightarrow> users db1 = Some [] | Some tbl \<Rightarrow> db1 = db))"
  by (auto simp add: pool_query_def split: option.splits)

lemma pool_query_count:
  "pool_query c CountUsers db = (r, db2) \<Longrightarrow>
     db2 = db \<and>
     (\<forall>res. r = Inr res \<longrightarrow> (\<exists>tbl. users db = Some tbl \<and> res = CountRow (decimal (length tbl))))"
  by (auto simp add: pool_query_def split: option.splits)

lemma pool_query_insert_sample:
  "pool_query c (InsertUsers sample_users) db = (Inr res, db3) \<Longrightarrow> users db = Some [] \<Longrightarrow>
     \<exists>tbl. users db3 = Some tbl \<and> tbl \<noteq> [] \<and> map (\<lambda>r. (name_col r, email_col r)) tbl = sample_users"
  by (auto simp add: pool_query_def insert_sample_users_empty sample_users_def split: option.splits)

text \<open>On a table that holds a row, a run changes nothing, whatever its queries meet.\<close>

lemma initDatabase_nonempty_unchanged:
  assumes "users db = Some tbl" and "tbl \<noteq> []"
  shows "users (snd (initDatabase c1 c2 c3 db)) = users db"
  using assms
  by (auto simp add: initDatabase_def pool_query_def parseInt_count_zero split: option.splits)

lemma initDatabase_success:
  assumes "initDatabase c1 c2 c3 db = (Inr seeded, db')"
  shows "(seeded \<longleftrightarrow> users db = None \<or> users db = Some [])
       \<and> (seeded \<longrightarrow> (\<exists>tbl. users db' = Some tbl \<and> tbl \<noteq> []
                          \<and> map (\<lambda>r. (name_col r, email_col r)) tbl = sample_users))
       \<and> (\<not> seeded \<longrightarrow> db' = db \<and> (\<exists>tbl. users db = Some tbl \<and> tbl \<noteq> []))"
proof -
  obtain r1 db1 where q1: "pool_query c1 CreateUsersTable db = (r1, db1)"
    by (cases "pool_query c1 CreateUsersTable db")
  obtain r2 db2 where q2: "pool_query c2 CountUsers db1 = (r2, db2)"
    by (cases "pool_query c2 CountUsers db1")
  from assms q1 obtain cr where r1: "r1 = Inr cr"
    by (cases r1) (auto simp add: initDatabase_def)
  from assms q1 q2 r1 obtain res where r2: "r2 = Inr res"
    by (cases r2) (auto simp add: initDatabase_def)
  from pool_query_count [OF q2] r2 obtain tbl1 where
    db2: "db2 = db1" and tbl1: "users db1 = Some tbl1" and res: "res = CountRow (decimal (length tbl1))"
    by blast
  from pool_query_create [OF q1] r1 have
    cr: "case users db of None \<Rightarrow> users db1 = Some [] | Some tbl \<Rightarrow> db1 = db"
    by (auto split: option.splits)
  show ?thesis
  proof (cases "tbl1 = []")
    case True
    with assms q1 q2 r1 r2 res db2 obtain ins where
      q3: "pool_query c3 (InsertUsers sample_users) db1 = (Inr ins, db')" and s: "seeded"
      by (auto simp add: initDatabase_def parseInt_count_zero split: prod.splits sum.splits)
    from pool_query_insert_sample [OF q3] tbl1 True
    have "\<exists>tbl. users db' = Some tbl \<and> tbl \<noteq> []
            \<and> map (\<lambda>r. (name_col r, email_col r)) tbl = sample_users"
      by simp
    moreover from cr tbl1 True have "users db = None \<or> users db = Some []"
      by (auto split: option.splits)
    ultimately show ?thesis using s by simp
  next
    case False
    with assms q1 q2 r1 r2 res db2 have s: "\<not> seeded" and d: "db' = db1"
      by (auto simp add: initDatabase_def parseInt_count_zero)
    from cr tbl1 False have "db1 = db" by (auto split: option.splits)
    with s d tbl1 False show ?thesis by auto
  qed
qed

text \<open>
  C10. A run of \<open>initDatabase\<close> that ends without a caught error has inserted the
  three sample users exactly when the table was missing or empty, that is when the count
  it read was 0, and has left a table that holds rows untouched; any further run on the
  state it leaves, whatever that run's queries meet, leaves the rows of \<open>users\<close> as
  they are.
\<close>

theorem initDatabase_seed_idempotent:
  assumes "initDatabase c1 c2 c3 db = (Inr seeded, db')"
  shows "users (snd (initDatabase d1 d2 d3 db')) = users db'
       \<and> (seeded \<longleftrightarrow> users db = None \<or> users db = Some [])
       \<and> (seeded \<longrightarrow> (\<exists>tbl. users db' = Some tbl
                          \<and> map (\<lambda>r. (name_col r, email_col r)) tbl = sample_users))
       \<and> (\<not> seeded \<longrightarrow> users db' = users db)"
proof -
  note s = initDatabase_success [OF assms]
  from s obtain tbl where "users db' = Some tbl" and "tbl \<noteq> []"
    by (cases seeded) auto
  then have "users (snd (initDatabase d1 d2 d3 db')) = users db'"
    by (rule initDatabase_nonempty_unchanged)
  with s show ?thesis by auto
qed

lemma initDatabase_fresh_server:
  "initDatabase reachable reachable reachable fresh_server = (Inr True, seeded_server)"
  by (simp add: initDatabase_def pool_query_def reachable_def fresh_server_def seeded_server_def
      alice_def bob_def charlie_def parseInt_decimal insert_sample_users_empty)

lemma initDatabase_seeded_server:
  "initDatabase reachable reachable reachable seeded_server = (Inr False, seeded_server)"
  by (simp add: initDatabase_def pool_query_def reachable_def seeded_server_def parseInt_decimal)

theorem initDatabase_seed_idempotent_witness:
  "initDatabase reachable reachable reachable fresh_server = (Inr True, seeded_server)
   \<and> users (snd (initDatabase reachable unreachable reachable seeded_server)) = users seeded_server
   \<and> initDatabase reachable reachable reachable seeded_server = (Inr False, seeded_server)
   \<and> users (snd (initDatabase reachable reachable reachable seeded_server)) = users seeded_server"
  using initDatabase_seed_idempotent [OF initDatabase_fresh_server, of reachable unreachable reachable]
    initDatabase_seed_idempotent [OF initDatabase_seeded_server, of reachable reachable reachable]
    initDatabase_fresh_server initDatabase_seeded_server
  by simp


section \<open>GET /users/:id\<close>

text \<open>The primary key: no two rows of the table share an id. Every query keeps it.\<close>

lemma filter_id_unique:
  assumes "distinct (map id_col tbl)" and "r \<in> set tbl"
  shows "filter (\<lambda>x. id_col x = id_col r) tbl = [r]"
  using assms
proof (induction tbl)
  case Nil
  then show ?case by simp
next
  case (Cons x tbl)
  from Cons.prems(1) have x: "id_col x \<notin> id_col ` set tbl" by simp
  show ?case
  proof (cases "x = r")
    case True
    from x have "\<forall>y\<in>set tbl. id_col y \<noteq> id_col x" by (metis imageI)
    then have "filter (\<lambda>y. id_col y = id_col x) tbl = []" by (simp add: filter_empty_conv)
    with True show ?thesis by simp
  next
    case False
    with Cons.prems have r: "r \<in> set tbl" and d: "distinct (map id_col tbl)" by auto
    from x r have "id_col x \<noteq> id_col r" by (metis imageI)
    with Cons.IH [OF d r] show ?thesis by simp
  qed
qed

lemma insert_rows_primary_key:
  "insert_rows t k vs tbl = (Inr tbl', k') \<Longrightarrow> distinct (map id_col tbl)
     \<Longrightarrow> distinct (map id_col tbl')"
proof (induction vs arbitrary: k tbl)
  case Nil
  then show ?case by simp
next
  case (Cons v vs)
  obtain n e where v: "v = (n, e)" by (cases v)
  let ?row = "\<lparr>id_col = k, name_col = n, email_col = e, created_at_col = t\<rparr>"
  from Cons.prems v have unused: "k \<notin> id_col ` set tbl"
    and rest: "insert_rows t (k + 1) vs (tbl @ [?row]) = (Inr tbl', k')"
    by (auto split: if_splits)
  from unused Cons.prems(2) have "distinct (map id_col (tbl @ [?row]))" by auto
  with Cons.IH [OF rest] show ?case .
qed

lemma pool_query_primary_key:
  assumes "users db = Some tbl" and "distinct (map id_col tbl)"
    and "users (snd (pool_query c q db)) = Some tbl'"
  shows "distinct (map id_col tbl')"
proof (cases "fault c")
  case (Some m)
  with assms show ?thesis by (simp add: pool_query_def)
next
  case None
  show ?thesis
  proof (cases q)
    case (InsertUsers vs)
    obtain r k where ins: "insert_rows (clock c) (users_id_seq db) vs tbl = (r, k)"
      by (cases "insert_rows (clock c) (users_id_seq db) vs tbl")
    show ?thesis
    proof (cases r)
      case (Inl m)
      with None InsertUsers ins assms show ?thesis by (simp add: pool_query_def)
    next
      case (Inr new)
      with ins assms(2) have "distinct (map id_col new)" by (auto dest: insert_rows_primary_key)
      with None InsertUsers ins Inr assms show ?thesis by (simp add: pool_query_def)
    qed
  qed (use None assms in \<open>auto simp add: pool_query_def split: option.splits\<close>)
qed

text \<open>
  C9. Whatever the query of \<open>GET /users/:id\<close> meets: when it rejects, the handler
  answers 500 with the rejection's message as \<open>error\<close>; when it resolves, the table
  exists and the server has read the route parameter as an integer, and then the handler
  answers 404 with \<open>User not found\<close> if no row has that id, and 200 with the id,
  name, email and created_at of the row that has it, the only one under the primary key.
\<close>

theorem getUser_by_query_outcome:
  assumes "pool_query c (SelectUserById userId) db = (outcome, db')"
  shows "(\<forall>message. outcome = Inl message \<longrightarrow>
            getUser c userId db =
              (\<lparr>status = 500, body = Json (JObject [(''error'', JString message)])\<rparr>, db'))
       \<and> (\<forall>result. outcome = Inr result \<longrightarrow>
            (\<exists>tbl k. users db = Some tbl \<and> int4in db userId = Some k
               \<and> ((\<forall>r\<in>set tbl. id_col r \<noteq> k) \<longrightarrow>
                     getUser c userId db =
                       (\<lparr>status = 404,
                         body = Json (JObject [(''error'', JString ''User not found'')])\<rparr>, db'))
               \<and> (\<forall>r\<in>set tbl. id_col r = k \<and> distinct (map id_col tbl) \<longrightarrow>
                     getUser c userId db =
                       (\<lparr>status = 200,
                         body = Json (JObject [(''id'', JNum (id_col r)),
                                               (''name'', JString (name_col r)),
                                               (''email'', JString (email_col r)),
                                               (''created_at'', JDate (created_at_col r))])\<rparr>,
                        db'))))"
proof (intro conjI allI impI)
  fix message assume "outcome = Inl message"
  with assms show "getUser c userId db =
      (\<lparr>status = 500, body = Json (JObject [(''error'', JString message)])\<rparr>, db')"
    by (simp add: getUser_def error_response_def)
next
  fix result assume ok: "outcome = Inr result"
  with assms obtain tbl k where tbl: "users db = Some tbl" and k: "int4in db userId = Some k"
    and res: "result = UserRows (filter (\<lambda>r. id_col r = k) tbl)"
    by (auto simp add: pool_query_def split: option.splits)
  have none: "getUser c userId db =
      (\<lparr>status = 404, body = Json (JObject [(''error'', JString ''User not found'')])\<rparr>, db')"
    if "\<forall>r\<in>set tbl. id_col r \<noteq> k"
  proof -
    from that have "filter (\<lambda>r. id_col r = k) tbl = []" by (simp add: filter_empty_conv)
    with assms ok res show ?thesis by (simp add: getUser_def)
  qed
  have one: "getUser c userId db = (\<lparr>status = 200, body = Json (row_json r)\<rparr>, db')"
    if "r \<in> set tbl" and "id_col r = k \<and> distinct (map id_col tbl)" for r
  proof -
    from that filter_id_unique [of tbl r] have "filter (\<lambda>x. id_col x = k) tbl = [r]" by auto
    with assms ok res show ?thesis by (simp add: getUser_def)
  qed
  from tbl k none one
  show "\<exists>tbl k. users db = Some tbl \<and> int4in db userId = Some k
               \<and> ((\<forall>r\<in>set tbl. id_col r \<noteq> k) \<longrightarrow>
                     getUser c userId db =
                       (\<lparr>status = 404,
                         body = Json (JObject [(''error'', JString ''User not found'')])\<rparr>, db'))
               \<and> (\<forall>r\<in>set tbl. id_col r = k \<and> distinct (map id_col tbl) \<longrightarrow>
                     getUser c userId db =
                       (\<lparr>status = 200,
                         body = Json (JObject [(''id'', JNum (id_col r)),
                                               (''name'', JString (name_col r)),
                                               (''email'', JString (email_col r)),
                                               (''created_at'', JDate (created_at_col r))])\<rparr>,
                        db'))"
    unfolding row_json_def by blast
qed

lemma parseInt_2: "parseInt ''2'' = Some 2"
  by (simp add: parseInt_def is_space_def is_radix_digit_def digit_value_def radix_value_def)

lemma parseInt_7: "parseInt ''7'' = Some 7"
  by (simp add: parseInt_def is_space_def is_radix_digit_def digit_value_def radix_value_def)

lemma int4in_seeded_2: "int4in seeded_server ''2'' = Some 2"
  by (simp add: seeded_server_def parseInt_2)

lemma int4in_seeded_7: "int4in seeded_server ''7'' = Some 7"
  by (simp add: seeded_server_def parseInt_7)

lemma select_bob:
  "pool_query reachable (SelectUserById ''2'') seeded_server = (Inr (UserRows [bob]), seeded_server)"
  by (simp add: pool_query_def reachable_def seeded_server_def parseInt_2
      alice_def bob_def charlie_def)

lemma select_nobody:
  "pool_query reachable (SelectUserById ''7'') seeded_server = (Inr (UserRows []), seeded_server)"
  by (simp add: pool_query_def reachable_def seeded_server_def parseInt_7
      alice_def bob_def charlie_def)

lemma select_unreachable:
  "pool_query unreachable (SelectUserById ''2'') seeded_server =
     (Inl ''connect ECONNREFUSED 10.0.0.7:5432'', seeded_server)"
  by (simp add: pool_query_def unreachable_def)

theorem getUser_by_query_outcome_witness:
  "getUser reachable ''2'' seeded_server =
     (\<lparr>status = 200,
       body = Json (JObject [(''id'', JNum 2), (''name'', JString ''Bob Smith''),
                             (''email'', JString ''bob@example.com''),
                             (''created_at'', JDate 1000)])\<rparr>, seeded_server)
   \<and> getUser reachable ''7'' seeded_server =
     (\<lparr>status = 404, body = Json (JObject [(''error'', JString ''User not found'')])\<rparr>,
      seeded_server)
   \<and> getUser unreachable ''2'' seeded_server =
     (\<lparr>status = 500,
       body = Json (JObject [(''error'', JString ''connect ECONNREFUSED 10.0.0.7:5432'')])\<rparr>,
      seeded_server)"
proof (intro conjI)
  have tbl: "users seeded_server = Some [alice, bob, charlie]" by (simp add: seeded_server_def)
  from getUser_by_query_outcome [OF select_bob] tbl int4in_seeded_2
  have "\<forall>r\<in>set [alice, bob, charlie].
          id_col r = 2 \<and> distinct (map id_col [alice, bob, charlie]) \<longrightarrow>
          getUser reachable ''2'' seeded_server =
            (\<lparr>status = 200,
              body = Json (JObject [(''id'', JNum (id_col r)), (''name'', JString (name_col r)),
                                    (''email'', JString (email_col r)),
                                    (''created_at'', JDate (created_at_col r))])\<rparr>,
             seeded_server)"
    by simp
  then show "getUser reachable ''2'' seeded_server =
     (\<lparr>status = 200,
       body = Json (JObject [(''id'', JNum 2), (''name'', JString ''Bob Smith''),
                             (''email'', JString ''bob@example.com''),
                             (''created_at'', JDate 1000)])\<rparr>, seeded_server)"
    by (simp add: alice_def bob_def charlie_def)
next
  have tbl: "users seeded_server = Some [alice, bob, charlie]" by (simp add: seeded_server_def)
  from getUser_by_query_outcome [OF select_nobody] tbl int4in_seeded_7
  have "(\<forall>r\<in>set [alice, bob, charlie]. id_col r \<noteq> 7) \<longrightarrow>
          getUser reachable ''7'' seeded_server =
            (\<lparr>status = 404, body = Json (JObject [(''error'', JString ''User not found'')])\<rparr>,
             seeded_server)"
    by simp
  then show "getUser reachable ''7'' seeded_server =
     (\<lparr>status = 404, body = Json (JObject [(''error'', JString ''User not found'')])\<rparr>,
      seeded_server)"
    by (simp add: alice_def bob_def charlie_def)
next
  from getUser_by_query_outcome [OF select_unreachable]
  show "getUser unreachable ''2'' seeded_server =
     (\<lparr>status = 500,
       body = Json (JObject [(''error'', JString ''connect ECONNREFUSED 10.0.0.7:5432'')])\<rparr>,
      seeded_server)"
    by simp
qed


section \<open>The two frontend variants at the HTTP interface\<close>

lemma routes_explicit_eq: "routes_explicit = routes_autoconfigured"
  by (simp add: routes_explicit_def routes_autoconfigured_def)

lemma handle_explicit_eq:
  "h \<noteq> Homepage \<Longrightarrow> handle_explicit e h params = handle_autoconfigured e h params"
  by (cases h) simp_all

lemma handle_explicit_status:
  "status (handle_explicit e h params) = status (handle_autoconfigured e h params)"
  by (cases h) simp_all

lemma match_path_root: "match_path [] p = Some params \<Longrightarrow> p = []"
  by (cases p) simp_all

lemma match_path_Lit:
  "match_path (Lit l # ps) p = Some params
     \<Longrightarrow> \<exists>s ss. p = s # ss \<and> map lower l = map lower s \<and> match_path ps ss = Some params"
  by (cases p) (auto split: if_splits)

lemma dispatch_Homepage:
  assumes "dispatch routes_autoconfigured req = Some (Homepage, params)"
  shows "req = []"
  using assms
  by (auto simp add: routes_autoconfigured_def dest: match_path_root
      split: if_splits option.splits)

text \<open>
  Away from the home page the variants send the same response, for every backend and
  every clock; on every request they send the same status.
\<close>

lemma frontend_variants_agree_off_homepage:
  assumes "req \<noteq> []"
  shows "app_explicit e req = app_autoconfigured e req"
proof (cases "dispatch routes_autoconfigured req")
  case None
  then show ?thesis
    by (simp add: app_explicit_def app_autoconfigured_def routes_explicit_eq)
next
  case (Some hp)
  obtain h params where hp: "hp = (h, params)" by (cases hp)
  from Some hp assms dispatch_Homepage have "h \<noteq> Homepage" by blast
  with Some hp show ?thesis
    by (simp add: app_explicit_def app_autoconfigured_def routes_explicit_eq handle_explicit_eq)
qed

lemma frontend_variants_same_status:
  "map_option status (app_explicit e req) = map_option status (app_autoconfigured e req)"
  by (cases "dispatch routes_autoconfigured req")
     (auto simp add: app_explicit_def app_autoconfigured_def routes_explicit_eq
        handle_explicit_status)

text \<open>
  The route of \<open>/api/users/:id\<close> is registered before the route of
  \<open>/api/users/create\<close> and matches every path the latter matches, so neither variant
  ever runs its \<open>createUser\<close> handler.
\<close>

lemma match_path_create:
  assumes "match_path [Lit ''api'', Lit ''users'', Lit ''create''] p = Some params"
  shows "match_path [Lit ''api'', Lit ''users'', Param ''id''] p \<noteq> None"
proof -
  from match_path_Lit [OF assms] obtain s1 p1 where
    p: "p = s1 # p1" and s1: "map lower ''api'' = map lower s1"
    and m1: "match_path [Lit ''users'', Lit ''create''] p1 = Some params"
    by blast
  from match_path_Lit [OF m1] obtain s2 p2 where
    p1: "p1 = s2 # p2" and s2: "map lower ''users'' = map lower s2"
    and m2: "match_path [Lit ''create''] p2 = Some params"
    by blast
  from match_path_Lit [OF m2] obtain s3 p3 where
    p2: "p2 = s3 # p3" and s3: "map lower ''create'' = map lower s3"
    and m3: "match_path [] p3 = Some params"
    by blast
  from s3 have "s3 \<noteq> []" by auto
  with match_path_root [OF m3] p p1 p2 s1 s2 show ?thesis by simp
qed

lemma createUser_never_dispatched:
  "dispatch routes_autoconfigured req \<noteq> Some (CreateUser, params)"
  by (auto simp add: routes_autoconfigured_def dest: match_path_create
      split: if_splits option.splits)

text \<open>
  C8. The variants do not send the same body for every request: for \<open>GET /\<close> both
  answer 200 with the page of their own template literal, and the two pages differ. After
  \<open><h1>\<close> the auto-configured variant sends the four bytes of U+1F680 and the
  explicit-exporter variant the nine bytes \<open>C3 B0 C5 B8 C5 A1 E2 82 AC\<close>, the same mark
  encoded twice; the arrows of the next line differ in the same way.
\<close>

theorem frontend_homepage_bodies_differ:
  "app_autoconfigured e home_request = Some \<lparr>status = 200, body = Html homepage_autoconfigured\<rparr>
   \<and> app_explicit e home_request = Some \<lparr>status = 200, body = Html homepage_explicit\<rparr>
   \<and> homepage_autoconfigured \<noteq> homepage_explicit
   \<and> app_autoconfigured e home_request \<noteq> app_explicit e home_request"
proof -
  have a: "app_autoconfigured e home_request
             = Some \<lparr>status = 200, body = Html homepage_autoconfigured\<rparr>"
    by (simp add: app_autoconfigured_def routes_autoconfigured_def home_request_def)
  have b: "app_explicit e home_request = Some \<lparr>status = 200, body = Html homepage_explicit\<rparr>"
    by (simp add: app_explicit_def routes_explicit_def home_request_def)
  have d: "homepage_autoconfigured \<noteq> homepage_explicit"
    by (simp add: homepage_autoconfigured_def homepage_explicit_def homepage_def unlines_def)
  from a b d show ?thesis by simp
qed

end
